theory Spec2Isabelle
  imports Complex_Main "HOL-Library.Multiset"
begin

section \<open>Cell values and the host environment\<close>

text \<open>
  A cell read from the sheet by \<^verbatim>\<open>getValues()\<close> is a text, a number, a boolean or a
  Date object. \<^verbatim>\<open>null\<close> is named by the filter of \<^verbatim>\<open>createDataDictionary\<close>, and
  \<^verbatim>\<open>undefined\<close> is what \<^verbatim>\<open>r[col]\<close> yields past the end of a row and what the bare
  \<^verbatim>\<open>return;\<close> of \<^verbatim>\<open>inferType\<close> hands back. A text is held as the bytes of its UTF-8
  form.

  Equality on \<open>cell\<close> is the comparison that \<^verbatim>\<open>new Set\<close> and \<^verbatim>\<open>!==\<close> make: texts,
  numbers and booleans compare by value, an object only with itself. A Date object
  therefore carries its identity next to its time value (milliseconds).
\<close>

datatype cell =
    Undefined
  | Null
  | Text string
  | Number real
  | Bool bool
  | DateObj nat int

text \<open>
  What the source takes from the language runtime and does not define itself:
  the string constructor of \<^verbatim>\<open>Date\<close> (\<open>None\<close> is the invalid date, whose
  \<^verbatim>\<open>getTime()\<close> is NaN) and the conversion of numbers and dates to text that
  \<^verbatim>\<open>join\<close> applies.
\<close>

record Host =
  newDate :: "string \<Rightarrow> int option"
  numberToString :: "real \<Rightarrow> string"
  dateToString :: "int \<Rightarrow> string"

section \<open>The type classifier\<close>

text \<open>\<^verbatim>\<open>isValidDate(str)\<close>: \<^verbatim>\<open>const d = new Date(str); return !isNaN(d.getTime());\<close>\<close>

definition isValidDate :: "Host \<Rightarrow> string \<Rightarrow> bool" where
  "isValidDate h str = (case newDate h str of None \<Rightarrow> False | Some t \<Rightarrow> True)"

text \<open>
  \<^verbatim>\<open>toLowerCase\<close>: the letters A to Z become a to z and every other character is
  kept; no character outside A to Z is turned into a letter of the four tokens.
\<close>

definition lowerChar :: "char \<Rightarrow> char" where
  "lowerChar c =
     (case map_of (zip ''ABCDEFGHIJKLMNOPQRSTUVWXYZ'' ''abcdefghijklmnopqrstuvwxyz'') c of
        None \<Rightarrow> c
      | Some l \<Rightarrow> l)"

definition toLowerCase :: "string \<Rightarrow> string" where
  "toLowerCase s = map lowerChar s"

definition includes_list :: "'a list \<Rightarrow> 'a \<Rightarrow> bool" where
  "includes_list xs x = (x \<in> set xs)"

text \<open>
  \<^verbatim>\<open>isNaN(parseFloat(v))\<close>. \<^verbatim>\<open>parseFloat\<close> skips the leading white space and line
  terminators and reads the longest prefix that is a decimal literal: an optional sign,
  then \<^verbatim>\<open>Infinity\<close>, or digits with an optional fraction and exponent, or a dot
  followed by digits. The result is NaN exactly when no prefix is one, which the first
  characters decide.

  The characters skipped are tab, line feed, vertical tab, form feed, carriage return
  and blank, one byte each, and in two or three bytes U+00A0, U+1680, U+2000 to U+200A,
  U+2028, U+2029, U+202F, U+205F, U+3000 and U+FEFF.
\<close>

definition isDigit :: "char \<Rightarrow> bool" where
  "isDigit c = (let n = (of_char c :: nat) in 48 \<le> n \<and> n \<le> 57)"

definition isWhiteSpace :: "char \<Rightarrow> bool" where
  "isWhiteSpace c = (let n = (of_char c :: nat) in (9 \<le> n \<and> n \<le> 13) \<or> n = 32)"

definition wideSpace2 :: "char \<Rightarrow> char \<Rightarrow> bool" where
  "wideSpace2 a b = ((of_char a :: nat) = 194 \<and> (of_char b :: nat) = 160)"

definition wideSpace3 :: "char \<Rightarrow> char \<Rightarrow> char \<Rightarrow> bool" where
  "wideSpace3 a b c =
     (let x = (of_char a :: nat); y = (of_char b :: nat); z = (of_char c :: nat)
      in (x = 225 \<and> y = 154 \<and> z = 128) \<or>
         (x = 226 \<and> y = 128 \<and>
            ((128 \<le> z \<and> z \<le> 138) \<or> z = 168 \<or> z = 169 \<or> z = 175)) \<or>
         (x = 226 \<and> y = 129 \<and> z = 159) \<or>
         (x = 227 \<and> y = 128 \<and> z = 128) \<or>
         (x = 239 \<and> y = 187 \<and> z = 191))"

fun skipWhiteSpace :: "string \<Rightarrow> string" where
  "skipWhiteSpace (a # b # c # r) =
     (if isWhiteSpace a then skipWhiteSpace (b # c # r)
      else if wideSpace2 a b then skipWhiteSpace (c # r)
      else if wideSpace3 a b c then skipWhiteSpace r
      else a # b # c # r)"
| "skipWhiteSpace [a, b] =
     (if isWhiteSpace a then skipWhiteSpace [b]
      else if wideSpace2 a b then []
      else [a, b])"
| "skipWhiteSpace [a] = (if isWhiteSpace a then [] else [a])"
| "skipWhiteSpace [] = []"

fun unsignedLiteralStart :: "string \<Rightarrow> bool" where
  "unsignedLiteralStart [] = False"
| "unsignedLiteralStart [c] = isDigit c"
| "unsignedLiteralStart (c # d # r) =
     (isDigit c \<or> (c = CHR ''.'' \<and> isDigit d) \<or> take 8 (c # d # r) = ''Infinity'')"

fun literalStart :: "string \<Rightarrow> bool" where
  "literalStart [] = False"
| "literalStart (c # r) =
     (if c = CHR ''+'' \<or> c = CHR ''-'' then unsignedLiteralStart r
      else unsignedLiteralStart (c # r))"

definition parseFloatIsNaN :: "string \<Rightarrow> bool" where
  "parseFloatIsNaN v = (\<not> literalStart (skipWhiteSpace v))"

text \<open>The three flags of \<^verbatim>\<open>inferType\<close>, declared in the source's order.\<close>

record Flags =
  isNum :: bool
  isDate :: bool
  isBool :: bool

definition initFlags :: Flags where
  "initFlags = \<lparr>isNum = True, isDate = True, isBool = True\<rparr>"

text \<open>
  The body of the loop over the values. A text runs the three tests in the source's
  order (date, boolean, number); a number only clears \<open>isBool\<close>; a Date object clears
  \<open>isNum\<close> and \<open>isBool\<close>; any other value matches no branch.
\<close>

fun inspect :: "Host \<Rightarrow> Flags \<Rightarrow> cell \<Rightarrow> Flags" where
  "inspect h f (Text v) =
     (let f1 = (if \<not> isValidDate h v then f\<lparr>isDate := False\<rparr> else f);
          f2 = (if \<not> includes_list [''true'', ''false'', ''yes'', ''no''] (toLowerCase v)
                then f1\<lparr>isBool := False\<rparr> else f1);
          f3 = (if parseFloatIsNaN v then f2\<lparr>isNum := False\<rparr> else f2)
      in f3)"
| "inspect h f (Number x) = f\<lparr>isBool := False\<rparr>"
| "inspect h f (DateObj r t) = f\<lparr>isNum := False, isBool := False\<rparr>"
| "inspect h f v = f"

fun scanValues :: "Host \<Rightarrow> Flags \<Rightarrow> cell list \<Rightarrow> Flags" where
  "scanValues h f [] = f"
| "scanValues h f (v # vs) = scanValues h (inspect h f v) vs"

text \<open>The four returns after the loop, in the source's order.\<close>

definition decide :: "Flags \<Rightarrow> string" where
  "decide f =
     (if isDate f then ''Date''
      else if isNum f then ''Numeric''
      else if isBool f then ''Boolean''
      else ''String'')"

text \<open>
  \<^verbatim>\<open>inferType(values)\<close>. The first statement is \<^verbatim>\<open>if (values.empty()) return;\<close>, a return
  with no value: \<open>None\<close>. Every other path returns one of the four names.
\<close>

definition inferType :: "Host \<Rightarrow> cell list \<Rightarrow> string option" where
  "inferType h values =
     (if values = [] then None else Some (decide (scanValues h initFlags values)))"

section \<open>The dictionary builder\<close>

type_synonym Sheet = "cell list list"
type_synonym Spreadsheet = "string \<rightharpoonup> Sheet"

datatype error = Error string

definition sourceSheetName :: string where
  "sourceSheetName = ''EMR_Data''"

definition dictSheetName :: string where
  "dictSheetName = ''Data Dictionary''"

definition SAMPLE_ROWS :: nat where
  "SAMPLE_ROWS = 10"

definition dictHeaders :: "cell list" where
  "dictHeaders =
     [Text ''Field Name'', Text ''Data Type'', Text ''Description'',
      Text ''Example Value'', Text ''Missing Count'', Text ''Unique Values (sample)'']"

text \<open>\<^verbatim>\<open>xs.slice(start, stop)\<close> for indices that are not negative.\<close>

definition slice :: "nat \<Rightarrow> nat \<Rightarrow> 'a list \<Rightarrow> 'a list" where
  "slice start stop xs = drop start (take stop xs)"

text \<open>\<^verbatim>\<open>r[col]\<close>: past the end of the row the value is \<^verbatim>\<open>undefined\<close>.\<close>

definition cellAt :: "cell list \<Rightarrow> nat \<Rightarrow> cell" where
  "cellAt r col = (if col < length r then r ! col else Undefined)"

definition columnValues :: "Sheet \<Rightarrow> nat \<Rightarrow> cell list" where
  "columnValues rows col = map (\<lambda>r. cellAt r col) rows"

text \<open>\<^verbatim>\<open>columnValues.filter(v => v !== "" && v !== null)\<close>\<close>

definition nonEmpty :: "Sheet \<Rightarrow> nat \<Rightarrow> cell list" where
  "nonEmpty rows col = filter (\<lambda>v. v \<noteq> Text '''' \<and> v \<noteq> Null) (columnValues rows col)"

text \<open>
  \<^verbatim>\<open>[...new Set(xs)]\<close>: the values are added one by one, a value already in the set is
  skipped, and the set is read back in insertion order.
\<close>

definition setAdd :: "'a list \<Rightarrow> 'a \<Rightarrow> 'a list" where
  "setAdd acc v = (if v \<in> set acc then acc else acc @ [v])"

definition newSet :: "'a list \<Rightarrow> 'a list" where
  "newSet xs = foldl setAdd [] xs"

definition uniqueList :: "cell list \<Rightarrow> cell list" where
  "uniqueList vs = slice 0 10 (newSet vs)"

text \<open>\<^verbatim>\<open>join\<close> turns \<^verbatim>\<open>null\<close> and \<^verbatim>\<open>undefined\<close> into the empty text.\<close>

fun cellToString :: "Host \<Rightarrow> cell \<Rightarrow> string" where
  "cellToString h Undefined = ''''"
| "cellToString h Null = ''''"
| "cellToString h (Text s) = s"
| "cellToString h (Number x) = numberToString h x"
| "cellToString h (Bool b) = (if b then ''true'' else ''false'')"
| "cellToString h (DateObj r t) = dateToString h t"

fun join :: "string \<Rightarrow> string list \<Rightarrow> string" where
  "join sep [] = ''''"
| "join sep [x] = x"
| "join sep (x # y # r) = x @ sep @ join sep (y # r)"

text \<open>
  The six entries that the body of \<^verbatim>\<open>headers.forEach\<close> computes for one column, named
  after the source's local constants and the dictionary's header row.
\<close>

record DictionaryRecord =
  header :: cell
  dataType :: "string option"
  description :: string
  example :: cell
  missingCount :: int
  uniqueValues :: string

definition analyzeColumn :: "Host \<Rightarrow> Sheet \<Rightarrow> cell \<Rightarrow> nat \<Rightarrow> DictionaryRecord" where
  "analyzeColumn h rows hdr col =
     (let vs = nonEmpty rows col
      in \<lparr>header = hdr,
          dataType = inferType h vs,
          description = '''',
          example = (if length vs \<noteq> 0 then vs ! 0 else Text ''''),
          missingCount = int (length (columnValues rows col)) - int (length vs),
          uniqueValues = join '', '' (map (cellToString h) (uniqueList vs))\<rparr>)"

text \<open>The row handed to \<^verbatim>\<open>dict.appendRow\<close>.\<close>

definition recordRow :: "DictionaryRecord \<Rightarrow> cell list" where
  "recordRow r =
     [header r,
      (case dataType r of None \<Rightarrow> Undefined | Some t \<Rightarrow> Text t),
      Text (description r),
      example r,
      Number (of_int (missingCount r)),
      Text (uniqueValues r)]"

definition appendRow :: "Sheet \<Rightarrow> cell list \<Rightarrow> Sheet" where
  "appendRow sheet r = sheet @ [r]"

text \<open>\<^verbatim>\<open>headers.forEach((header, col) => ...)\<close>, with the dictionary sheet as the state.\<close>

fun forEachHeader :: "Host \<Rightarrow> Sheet \<Rightarrow> cell list \<Rightarrow> nat \<Rightarrow> Sheet \<Rightarrow> Sheet" where
  "forEachHeader h rows [] col dict = dict"
| "forEachHeader h rows (hdr # rest) col dict =
     forEachHeader h rows rest (Suc col)
       (appendRow dict (recordRow (analyzeColumn h rows hdr col)))"

text \<open>
  \<^verbatim>\<open>createDataDictionary()\<close> on the active spreadsheet, a map from sheet names to the
  values of their data range. The result is the exception thrown, if any, and the
  spreadsheet as the call leaves it. The two \<^verbatim>\<open>Logger.log\<close> calls and
  \<^verbatim>\<open>autoResizeColumns\<close> change no cell and are left out.
\<close>

definition createDataDictionary :: "Host \<Rightarrow> Spreadsheet \<Rightarrow> (error + unit) \<times> Spreadsheet" where
  "createDataDictionary h ss =
     (case ss sourceSheetName of
        None \<Rightarrow> (Inl (Error (''Source sheet not found: '' @ sourceSheetName)), ss)
      | Some data \<Rightarrow>
          if length data < 2 then (Inl (Error ''Data sheet has no rows.''), ss)
          else
            let headers = data ! 0;
                rows = slice 1 (1 + SAMPLE_ROWS) data;
                cleared = (case ss dictSheetName of None \<Rightarrow> [] | Some old \<Rightarrow> []);
                dict = appendRow cleared dictHeaders
            in (Inr (), ss(dictSheetName \<mapsto> forEachHeader h rows headers 0 dict)))"

section \<open>Notions used to state the properties\<close>

text \<open>
  A value keeps a flag when inspecting it leaves the flag as it was. Read off the
  branches of the loop body: only a text can clear \<open>isDate\<close>; a text that
  \<^verbatim>\<open>parseFloat\<close> cannot read and a Date object clear \<open>isNum\<close>; a text that is not one
  of the four tokens, a number and a Date object clear \<open>isBool\<close>.
\<close>

fun keepsDate :: "Host \<Rightarrow> cell \<Rightarrow> bool" where
  "keepsDate h (Text v) = isValidDate h v"
| "keepsDate h v = True"

fun keepsNum :: "cell \<Rightarrow> bool" where
  "keepsNum (Text v) = (\<not> parseFloatIsNaN v)"
| "keepsNum (DateObj r t) = False"
| "keepsNum v = True"

fun keepsBool :: "cell \<Rightarrow> bool" where
  "keepsBool (Text v) = includes_list [''true'', ''false'', ''yes'', ''no''] (toLowerCase v)"
| "keepsBool (Number x) = False"
| "keepsBool (DateObj r t) = False"
| "keepsBool v = True"

text \<open>
  Deduplication in first-seen order, said directly: position \<open>i\<close> of the list stays
  exactly when its value does not occur at an earlier position.
\<close>

definition firstOccurrences :: "'a list \<Rightarrow> 'a list" where
  "firstOccurrences xs =
     map (\<lambda>i. xs ! i) (filter (\<lambda>i. xs ! i \<notin> set (take i xs)) [0..<length xs])"

section \<open>A host for concrete runs\<close>

text \<open>
  The concrete runs below use V8, the engine that runs the script, with the time zone
  UTC. Its \<^verbatim>\<open>Date\<close> constructor is modelled on two shapes of text. A text of one or
  two digits that names a month, 1 to 12, is read as the first day of that month of 2001
  (so \<open>1\<close>, \<open>2\<close> and \<open>3\<close> are dates). A text \<^verbatim>\<open>YYYY-MM-DD\<close> with a month from 1 to 12 and
  a day from 1 to 31 is that day, a day past the end of the month running over into the
  next. Every other text is answered as invalid: that is V8's answer for a text without
  a digit, and no run below asks about another text.

  A number is printed in decimal, with its fraction digits when it is not whole, and a
  date in the form of \<^verbatim>\<open>Date.prototype.toString\<close>.
\<close>

definition daysFromCivil :: "int \<Rightarrow> int \<Rightarrow> int \<Rightarrow> int" where
  "daysFromCivil y m d =
     (let y' = (if m \<le> 2 then y - 1 else y);
          era = y' div 400;
          yoe = y' mod 400;
          doy = (153 * (if m > 2 then m - 3 else m + 9) + 2) div 5 + d - 1;
          doe = yoe * 365 + yoe div 4 - yoe div 100 + doy
      in era * 146097 + doe - 719468)"

definition civilFromDays :: "int \<Rightarrow> int \<times> int \<times> int" where
  "civilFromDays z =
     (let z' = z + 719468;
          era = z' div 146097;
          doe = z' mod 146097;
          yoe = (doe - doe div 1460 + doe div 36524 - doe div 146096) div 365;
          doy = doe - (365 * yoe + yoe div 4 - yoe div 100);
          mp = (5 * doy + 2) div 153;
          d = doy - (153 * mp + 2) div 5 + 1;
          m = (if mp < 10 then mp + 3 else mp - 9);
          y = yoe + era * 400 + (if m \<le> 2 then 1 else 0)
      in (y, m, d))"

definition digitValue :: "char \<Rightarrow> nat" where
  "digitValue c = of_char c - 48"

definition numberOf :: "string \<Rightarrow> nat" where
  "numberOf s = foldl (\<lambda>n c. 10 * n + digitValue c) 0 s"

definition v8Date :: "string \<Rightarrow> int option" where
  "v8Date s =
     (if (length s = 1 \<or> length s = 2) \<and> list_all isDigit s \<and>
         1 \<le> numberOf s \<and> numberOf s \<le> 12
      then Some (daysFromCivil 2001 (int (numberOf s)) 1 * 86400000)
      else if length s = 10 \<and> s ! 4 = CHR ''-'' \<and> s ! 7 = CHR ''-'' \<and>
              list_all isDigit (take 4 s @ take 2 (drop 5 s) @ drop 8 s) \<and>
              1 \<le> numberOf (take 2 (drop 5 s)) \<and> numberOf (take 2 (drop 5 s)) \<le> 12 \<and>
              1 \<le> numberOf (drop 8 s) \<and> numberOf (drop 8 s) \<le> 31
      then Some (daysFromCivil (int (numberOf (take 4 s)))
                   (int (numberOf (take 2 (drop 5 s)))) (int (numberOf (drop 8 s)))
                 * 86400000)
      else None)"

definition digitChar :: "nat \<Rightarrow> char" where
  "digitChar d = ''0123456789'' ! d"

fun natText :: "nat \<Rightarrow> string" where
  "natText n = (if n < 10 then [digitChar n] else natText (n div 10) @ [digitChar (n mod 10)])"

declare natText.simps [simp del]

fun fractionDigits :: "nat \<Rightarrow> real \<Rightarrow> string" where
  "fractionDigits 0 r = []"
| "fractionDigits (Suc n) r =
     (if r = 0 then []
      else digitChar (nat \<lfloor>10 * r\<rfloor>) # fractionDigits n (10 * r - of_int \<lfloor>10 * r\<rfloor>))"

definition v8NumberText :: "real \<Rightarrow> string" where
  "v8NumberText x =
     (let a = \<bar>x\<bar>; w = \<lfloor>a\<rfloor>
      in (if x < 0 then ''-'' else '''') @ natText (nat w) @
         (if a = of_int w then '''' else ''.'' @ fractionDigits 20 (a - of_int w)))"

definition twoDigits :: "nat \<Rightarrow> string" where
  "twoDigits n = [digitChar (n div 10 mod 10), digitChar (n mod 10)]"

definition yearText :: "nat \<Rightarrow> string" where
  "yearText y = replicate (4 - length (natText y)) CHR ''0'' @ natText y"

definition v8DateText :: "int \<Rightarrow> string" where
  "v8DateText t =
     (let days = t div 86400000;
          secs = nat (t mod 86400000 div 1000);
          (y, m, d) = civilFromDays days
      in [''Sun'', ''Mon'', ''Tue'', ''Wed'', ''Thu'', ''Fri'', ''Sat''] ! nat ((days + 4) mod 7)
         @ '' '' @
         [''Jan'', ''Feb'', ''Mar'', ''Apr'', ''May'', ''Jun'',
          ''Jul'', ''Aug'', ''Sep'', ''Oct'', ''Nov'', ''Dec''] ! nat (m - 1)
         @ '' '' @ twoDigits (nat d) @ '' '' @ yearText (nat y) @ '' '' @
         twoDigits (secs div 3600) @ '':'' @ twoDigits (secs div 60 mod 60) @ '':'' @
         twoDigits (secs mod 60) @ '' GMT+0000 (Coordinated Universal Time)'')"

definition sampleHost :: Host where
  "sampleHost =
     \<lparr>newDate = v8Date, numberToString = v8NumberText, dateToString = v8DateText\<rparr>"

text \<open>The data range of the scenario: the header row and three data rows.\<close>

definition scenarioData :: Sheet where
  "scenarioData =
     [[Text ''id'', Text ''signup_date'', Text ''active''],
      [Text ''1'', Text ''2024-01-05'', Text ''yes''],
      [Text ''2'', Text ''not-a-date'', Text ''no''],
      [Text ''3'', Text ''2024-03-10'', Text ''maybe'']]"

text \<open>
  A data range with one column of dates: two cells hold the same day, 5 January 2024,
  and \<^verbatim>\<open>getValues()\<close> hands out a Date object of its own for each cell.
\<close>

definition visitData :: Sheet where
  "visitData =
     [[Text ''visit''],
      [DateObj 1 1704412800000],
      [DateObj 2 1704412800000]]"

section \<open>Properties of the classifier\<close>

lemmas text_tests =
  parseFloatIsNaN_def isWhiteSpace_def wideSpace2_def wideSpace3_def isDigit_def
  includes_list_def toLowerCase_def lowerChar_def

lemma sampleHost_dates:
  "isValidDate sampleHost ''1''"
  "isValidDate sampleHost ''2''"
  "isValidDate sampleHost ''3''"
  "isValidDate sampleHost ''2024-01-05''"
  "isValidDate sampleHost ''2024-03-10''"
  "\<not> isValidDate sampleHost ''not-a-date''"
  "\<not> isValidDate sampleHost ''yes''"
  "\<not> isValidDate sampleHost ''no''"
  "\<not> isValidDate sampleHost ''maybe''"
  "\<not> isValidDate sampleHost ''Yes''"
  "\<not> isValidDate sampleHost ''x''"
  by (simp_all add: isValidDate_def sampleHost_def v8Date_def numberOf_def digitValue_def
      isDigit_def)

lemma sampleHost_times:
  "newDate sampleHost ''1'' = Some 978307200000"
  "newDate sampleHost ''2024-01-05'' = Some 1704412800000"
  by (simp_all add: sampleHost_def v8Date_def numberOf_def digitValue_def isDigit_def
      daysFromCivil_def Let_def)

lemma sampleHost_texts:
  "dateToString sampleHost 1704412800000
     = ''Fri Jan 05 2024 00:00:00 GMT+0000 (Coordinated Universal Time)''"
  "numberToString sampleHost 12 = ''12''"
  "numberToString sampleHost 1.5 = ''1.5''"
  by code_simp+

lemma inspect_isDate: "isDate (inspect h f v) = (isDate f \<and> keepsDate h v)"
  by (cases v) (simp_all add: Let_def)

lemma inspect_isNum: "isNum (inspect h f v) = (isNum f \<and> keepsNum v)"
  by (cases v) (simp_all add: Let_def)

lemma inspect_isBool: "isBool (inspect h f v) = (isBool f \<and> keepsBool v)"
  by (cases v) (simp_all add: Let_def)

lemma scanValues_isDate:
  "isDate (scanValues h f vs) = (isDate f \<and> list_all (keepsDate h) vs)"
  by (induction vs arbitrary: f) (auto simp: inspect_isDate)

lemma scanValues_isNum:
  "isNum (scanValues h f vs) = (isNum f \<and> list_all keepsNum vs)"
  by (induction vs arbitrary: f) (auto simp: inspect_isNum)

lemma scanValues_isBool:
  "isBool (scanValues h f vs) = (isBool f \<and> list_all keepsBool vs)"
  by (induction vs arbitrary: f) (auto simp: inspect_isBool)

lemmas scanValues_flags = scanValues_isDate scanValues_isNum scanValues_isBool

text \<open>
  C1. On the empty sequence \<^verbatim>\<open>inferType\<close> leaves through its first statement and
  returns no value at all; none of the four type names is produced.
\<close>

theorem inferType_empty_no_value: "inferType h [] = None"
  by (simp add: inferType_def)

text \<open>
  C3. For a sequence that is not empty, the returned name is read off the flags as the
  loop leaves them, Date before Numeric before Boolean before String; and a flag is
  still set at that point exactly when every value of the sequence keeps it.
\<close>

theorem inferType_precedence:
  "values \<noteq> [] \<Longrightarrow>
   (let f = scanValues h initFlags values in
      inferType h values =
        Some (if isDate f then ''Date''
              else if isNum f then ''Numeric''
              else if isBool f then ''Boolean''
              else ''String'') \<and>
      isDate f = list_all (keepsDate h) values \<and>
      isNum f = list_all keepsNum values \<and>
      isBool f = list_all keepsBool values)"
  by (simp add: Let_def inferType_def decide_def scanValues_flags initFlags_def)

theorem inferType_precedence_witness:
  "[Text ''Yes'', Text ''no''] \<noteq> [] \<and>
   inferType sampleHost [Text ''Yes'', Text ''no''] = Some ''Boolean'' \<and>
   \<not> isDate (scanValues sampleHost initFlags [Text ''Yes'', Text ''no'']) \<and>
   \<not> isNum (scanValues sampleHost initFlags [Text ''Yes'', Text ''no'']) \<and>
   isBool (scanValues sampleHost initFlags [Text ''Yes'', Text ''no''])"
  using inferType_precedence [of "[Text ''Yes'', Text ''no'']" sampleHost]
  by (simp add: Let_def sampleHost_dates text_tests)

text \<open>
  C4. Two sequences with the same values and multiplicities, in any order, get the same
  result from \<^verbatim>\<open>inferType\<close>.
\<close>

theorem inferType_permutation:
  "mset xs = mset ys \<Longrightarrow> inferType h xs = inferType h ys"
proof -
  assume p: "mset xs = mset ys"
  then have s: "set xs = set ys"
    by (rule mset_eq_setD)
  from p have e: "(xs = []) = (ys = [])"
    by (metis mset_zero_iff)
  have "decide (scanValues h initFlags xs) = decide (scanValues h initFlags ys)"
    by (simp add: decide_def scanValues_flags list_all_iff s)
  with e show ?thesis
    by (simp add: inferType_def)
qed

theorem inferType_permutation_witness:
  "mset [Text ''1'', Text ''x'', Number 2] = mset [Number 2, Text ''1'', Text ''x''] \<and>
   inferType sampleHost [Text ''1'', Text ''x'', Number 2] = Some ''String'' \<and>
   inferType sampleHost [Number 2, Text ''1'', Text ''x''] = Some ''String''"
proof -
  have m: "mset [Text ''1'', Text ''x'', Number 2] = mset [Number 2, Text ''1'', Text ''x'']"
    by (simp add: add_mset_commute)
  have r: "inferType sampleHost [Number 2, Text ''1'', Text ''x''] = Some ''String''"
    by (simp add: inferType_def decide_def scanValues_flags initFlags_def sampleHost_dates
        text_tests)
  from inferType_permutation [OF m, of sampleHost] m r show ?thesis
    by simp
qed

text \<open>
  C9. A sequence of booleans that is not empty is classified as Date: a boolean enters
  no branch of the loop body, all three flags stay set, and Date is tested first.
\<close>

theorem inferType_booleans_Date: "inferType h (map Bool (b # bs)) = Some ''Date''"
  by (simp add: inferType_def decide_def scanValues_isDate initFlags_def list_all_iff)

text \<open>
  C10. A sequence of numbers that is not empty is classified as Date, not Numeric: a
  number clears only \<open>isBool\<close>, so \<open>isDate\<close> is still set when it is tested first.
\<close>

theorem inferType_numbers_Date: "inferType h (map Number (x # xs)) = Some ''Date''"
  by (simp add: inferType_def decide_def scanValues_isDate initFlags_def list_all_iff)

section \<open>Properties of the dictionary builder\<close>

lemma forEachHeader_rows:
  "forEachHeader h rows headers col dict =
     dict @ map (\<lambda>(hdr, c). recordRow (analyzeColumn h rows hdr c))
              (zip headers [col..<col + length headers])"
proof (induction headers arbitrary: col dict)
  case Nil
  then show ?case by simp
next
  case (Cons hdr rest)
  have u: "[col..<col + length (hdr # rest)] = col # [Suc col..<Suc col + length rest]"
    by (subst upt_rec) simp
  show ?case
    by (simp only: forEachHeader.simps Cons.IH u zip_Cons_Cons list.map appendRow_def) simp
qed

lemma createDataDictionary_rows:
  "ss sourceSheetName = Some data \<Longrightarrow> 2 \<le> length data \<Longrightarrow>
   createDataDictionary h ss =
     (Inr (), ss(dictSheetName \<mapsto> dictHeaders #
        map (\<lambda>col. recordRow
                (analyzeColumn h (slice 1 (1 + SAMPLE_ROWS) data) (data ! 0 ! col) col))
          [0..<length (data ! 0)]))"
proof -
  assume a: "ss sourceSheetName = Some data" "2 \<le> length data"
  have c: "(case ss dictSheetName of None \<Rightarrow> [] | Some old \<Rightarrow> []) = ([] :: Sheet)"
    by (simp split: option.split)
  have z: "map (\<lambda>(hdr, c). recordRow (analyzeColumn h rows hdr c)) (zip xs [0..<length xs])
         = map (\<lambda>c. recordRow (analyzeColumn h rows (xs ! c) c)) [0..<length xs]" for rows xs
    by (rule nth_equalityI) simp_all
  from a show ?thesis
    by (simp add: createDataDictionary_def Let_def c forEachHeader_rows z appendRow_def)
qed

lemma set_foldl_setAdd: "set (foldl setAdd acc xs) = set acc \<union> set xs"
  by (induction xs arbitrary: acc) (auto simp: setAdd_def)

lemma distinct_foldl_setAdd: "distinct acc \<Longrightarrow> distinct (foldl setAdd acc xs)"
  by (induction xs arbitrary: acc) (auto simp: setAdd_def)

lemma set_newSet: "set (newSet xs) = set xs"
  by (simp add: newSet_def set_foldl_setAdd)

lemma distinct_newSet: "distinct (newSet xs)"
  by (simp add: newSet_def distinct_foldl_setAdd)

lemma newSet_snoc: "newSet (xs @ [x]) = newSet xs @ (if x \<in> set xs then [] else [x])"
  by (simp add: newSet_def setAdd_def set_foldl_setAdd)

lemma firstOccurrences_snoc:
  "firstOccurrences (xs @ [x]) = firstOccurrences xs @ (if x \<in> set xs then [] else [x])"
proof -
  let ?P = "\<lambda>i. (xs @ [x]) ! i \<notin> set (take i (xs @ [x]))"
  let ?Q = "\<lambda>i. xs ! i \<notin> set (take i xs)"
  have l: "[0..<length (xs @ [x])] = [0..<length xs] @ [length xs]"
    by simp
  have f: "filter ?P [0..<length xs] = filter ?Q [0..<length xs]"
    by (rule filter_cong) (auto simp: nth_append)
  have m: "map ((!) (xs @ [x])) (filter ?Q [0..<length xs])
         = map ((!) xs) (filter ?Q [0..<length xs])"
    by (rule map_cong) (auto simp: nth_append)
  have e: "map ((!) (xs @ [x])) (filter ?P [length xs]) = (if x \<in> set xs then [] else [x])"
    by simp
  show ?thesis
    unfolding firstOccurrences_def l filter_append map_append f m e ..
qed

lemma newSet_firstOccurrences: "newSet xs = firstOccurrences xs"
proof (induction xs rule: rev_induct)
  case Nil
  show ?case by (simp add: newSet_def firstOccurrences_def)
next
  case (snoc x xs)
  then show ?case
    by (simp only: newSet_snoc firstOccurrences_snoc)
qed

lemma columnValues_cells:
  "columnValues rows col = map (\<lambda>r. if col < length r then r ! col else Undefined) rows"
  by (simp add: columnValues_def cellAt_def)

text \<open>
  Two concrete runs. A column whose sampled cells are all missing reaches
  \<^verbatim>\<open>inferType\<close> with the empty sequence, and its row carries no type. A value first
  seen in the twelfth sampled row is kept when fewer than 10 distinct values precede it.
\<close>

lemma empty_column_row:
  "recordRow (analyzeColumn h [[Text ''''], [Null]] hdr 0)
     = [hdr, Undefined, Text '''', Text '''', Number 2, Text '''']"
  by (simp add: analyzeColumn_def nonEmpty_def columnValues_def cellAt_def inferType_def
      recordRow_def Let_def uniqueList_def slice_def newSet_def setAdd_def)

lemma uniqueList_late_value:
  "uniqueList (replicate 11 (Text ''a'') @ [Text ''b'', Text ''a'']) = [Text ''a'', Text ''b'']"
  by (simp add: uniqueList_def slice_def newSet_def setAdd_def numeral_eq_Suc)

text \<open>
  What does hold of the unique values of every column, for any number of sampled rows:
  they are the texts, joined by a comma and a blank, of the first 10 first occurrences
  among the non-missing cells of the column. That list has no entry twice as the set
  compares them, a Date object being equal to itself only.
\<close>

lemma uniqueValues_first_ten:
  "(let cells = map (\<lambda>r. if col < length r then r ! col else Undefined) rows;
        vs = filter (\<lambda>v. v \<noteq> Text '''' \<and> v \<noteq> Null) cells;
        us = take 10 (firstOccurrences vs)
    in uniqueValues (analyzeColumn h rows hdr col) = join '', '' (map (cellToString h) us) \<and>
       length us \<le> 10 \<and>
       distinct us)"
proof -
  have d: "distinct (take 10 (firstOccurrences vs))" for vs :: "cell list"
    by (simp add: distinct_newSet newSet_firstOccurrences [symmetric])
  show ?thesis
    by (simp add: Let_def analyzeColumn_def nonEmpty_def columnValues_cells uniqueList_def
        slice_def newSet_firstOccurrences d)
qed

lemma visit_run:
  "createDataDictionary h [sourceSheetName \<mapsto> visitData] =
     (Inr (),
      [sourceSheetName \<mapsto> visitData,
       dictSheetName \<mapsto>
         [dictHeaders,
          [Text ''visit'', Text ''Date'', Text '''', DateObj 1 1704412800000, Number 0,
           Text (dateToString h 1704412800000 @ '', '' @ dateToString h 1704412800000)]]])"
proof -
  have s: "[sourceSheetName \<mapsto> visitData] sourceSheetName = Some visitData"
    by simp
  have l: "2 \<le> length visitData"
    by (simp add: visitData_def)
  have r: "slice 1 (1 + SAMPLE_ROWS) visitData = tl visitData"
    by (simp add: slice_def SAMPLE_ROWS_def visitData_def)
  have hs: "visitData ! 0 = [Text ''visit'']"
    by (simp add: visitData_def)
  have c0: "columnValues (tl visitData) 0 = [DateObj 1 1704412800000, DateObj 2 1704412800000]"
    by (simp add: columnValues_def cellAt_def visitData_def)
  have t: "inferType h [DateObj a x, DateObj b y] = Some ''Date''" for a b x y
    by (simp add: inferType_def decide_def scanValues_flags initFlags_def)
  show ?thesis
    unfolding createDataDictionary_rows
        [of "[sourceSheetName \<mapsto> visitData]" visitData h, OF s l] r hs
    by (simp add: analyzeColumn_def nonEmpty_def c0 t uniqueList_def slice_def
        newSet_def setAdd_def Let_def recordRow_def)
qed

text \<open>
  C5. The unique values of a column are to hold no value twice, and for a column of
  dates they fail to: each cell comes as a Date object of its own, the set keeps objects
  apart whatever their time, and the same day is written once per cell. Here the column
  \<open>visit\<close> holds 5 January 2024 in both sampled rows, and the dictionary lists that
  day twice.
\<close>

theorem uniqueValues_repeats_equal_dates:
  "uniqueList (nonEmpty (tl visitData) 0)
     = [DateObj 1 1704412800000, DateObj 2 1704412800000] \<and>
   createDataDictionary sampleHost [sourceSheetName \<mapsto> visitData] =
     (Inr (),
      [sourceSheetName \<mapsto> visitData,
       dictSheetName \<mapsto>
         [dictHeaders,
          [Text ''visit'', Text ''Date'', Text '''', DateObj 1 1704412800000, Number 0,
           Text ''Fri Jan 05 2024 00:00:00 GMT+0000 (Coordinated Universal Time), Fri Jan 05 2024 00:00:00 GMT+0000 (Coordinated Universal Time)'']]])"
proof -
  have u: "uniqueList (nonEmpty (tl visitData) 0)
      = [DateObj 1 1704412800000, DateObj 2 1704412800000]"
    by (simp add: nonEmpty_def columnValues_def cellAt_def visitData_def uniqueList_def
        slice_def newSet_def setAdd_def)
  show ?thesis
    by (simp add: u visit_run sampleHost_texts(1))
qed

text \<open>
  C6. For every column, the missing count of its record is the number of sampled rows
  whose cell of that column is the empty text or \<^verbatim>\<open>null\<close>, the non-missing values are
  the other cells of the column in row order, one cell per sampled row, and the missing
  count plus the number of non-missing values is the number of sampled rows.
\<close>

theorem missingCount_partition:
  "(let cells = map (\<lambda>r. if col < length r then r ! col else Undefined) rows;
        r = analyzeColumn h rows hdr col
    in length cells = length rows \<and>
       missingCount r = int (length (filter (\<lambda>v. v = Text '''' \<or> v = Null) cells)) \<and>
       nonEmpty rows col = filter (\<lambda>v. v \<noteq> Text '''' \<and> v \<noteq> Null) cells \<and>
       missingCount r + int (length (nonEmpty rows col)) = int (length rows))"
proof -
  let ?cells = "map (\<lambda>r. if col < length r then r ! col else Undefined) rows"
  have p: "(\<lambda>v. v \<noteq> Text '''' \<and> v \<noteq> Null) = (\<lambda>v. \<not> (v = Text '''' \<or> v = Null))"
    by (simp add: fun_eq_iff)
  have s: "length (filter (\<lambda>v. v = Text '''' \<or> v = Null) ?cells)
         + length (filter (\<lambda>v. \<not> (v = Text '''' \<or> v = Null)) ?cells) = length ?cells"
    by (rule sum_length_filter_compl)
  have n: "nonEmpty rows col = filter (\<lambda>v. \<not> (v = Text '''' \<or> v = Null)) ?cells"
    by (simp only: nonEmpty_def columnValues_cells p)
  have m: "missingCount (analyzeColumn h rows hdr col)
         = int (length ?cells) - int (length (nonEmpty rows col))"
    by (simp add: analyzeColumn_def Let_def columnValues_cells)
  from s have c: "int (length ?cells) - int (length (nonEmpty rows col))
         = int (length (filter (\<lambda>v. v = Text '''' \<or> v = Null) ?cells))"
    unfolding n by linarith
  have e: "length ?cells = length rows"
    by simp
  from e m c n show ?thesis
    unfolding Let_def p by simp
qed

theorem missingCount_partition_witness:
  "missingCount (analyzeColumn sampleHost [[Text ''''], [Null], [Text ''a'']] (Text ''c'') 0) = 2 \<and>
   nonEmpty [[Text ''''], [Null], [Text ''a'']] 0 = [Text ''a'']"
  using missingCount_partition [of 0 "[[Text ''''], [Null], [Text ''a'']]" sampleHost "Text ''c''"]
  by (simp add: Let_def)

text \<open>
  C7. When the data range of the source sheet is the header row alone,
  \<^verbatim>\<open>createDataDictionary\<close> throws "Data sheet has no rows." and leaves the spreadsheet
  as it found it: no dictionary sheet is created or cleared and no row is written.
\<close>

theorem createDataDictionary_no_rows:
  "ss sourceSheetName = Some [headers] \<Longrightarrow>
   createDataDictionary h ss = (Inl (Error ''Data sheet has no rows.''), ss)"
  by (simp add: createDataDictionary_def)

theorem createDataDictionary_no_rows_witness:
  "[sourceSheetName \<mapsto> [[Text ''id'', Text ''active'']]] sourceSheetName
     = Some [[Text ''id'', Text ''active'']] \<and>
   createDataDictionary sampleHost [sourceSheetName \<mapsto> [[Text ''id'', Text ''active'']]]
     = (Inl (Error ''Data sheet has no rows.''),
        [sourceSheetName \<mapsto> [[Text ''id'', Text ''active'']]])"
  using createDataDictionary_no_rows
    [of "[sourceSheetName \<mapsto> [[Text ''id'', Text ''active'']]]"
        "[Text ''id'', Text ''active'']" sampleHost]
  by simp

text \<open>
  C8. When the source sheet has a header row and at least one data row,
  \<^verbatim>\<open>createDataDictionary\<close> completes and the dictionary sheet holds its header row
  followed by exactly one row per column, in the order of the headers: the row at
  position \<open>col\<close> is the record of column \<open>col\<close> and names the header at \<open>col\<close>.
\<close>

theorem createDataDictionary_header_order:
  "ss sourceSheetName = Some data \<Longrightarrow> 2 \<le> length data \<Longrightarrow>
   (let headers = data ! 0;
        rows = slice 1 (1 + SAMPLE_ROWS) data;
        records = map (\<lambda>col. analyzeColumn h rows (headers ! col) col) [0..<length headers]
    in createDataDictionary h ss
         = (Inr (), ss(dictSheetName \<mapsto> dictHeaders # map recordRow records)) \<and>
       length records = length headers \<and>
       map header records = headers \<and>
       map (\<lambda>r. r ! 0) (map recordRow records) = headers)"
proof -
  assume a: "ss sourceSheetName = Some data" "2 \<le> length data"
  have n: "map (\<lambda>col. xs ! col) [0..<length xs] = xs" for xs :: "cell list"
    by (rule map_nth)
  have hd: "header (analyzeColumn h rows x col) = x" for rows x col
    by (simp add: analyzeColumn_def Let_def)
  have r0: "recordRow r ! 0 = header r" for r
    by (simp add: recordRow_def)
  from a have c: "createDataDictionary h ss =
      (Inr (), ss(dictSheetName \<mapsto> dictHeaders #
         map (\<lambda>col. recordRow
                 (analyzeColumn h (slice 1 (1 + SAMPLE_ROWS) data) (data ! 0 ! col) col))
           [0..<length (data ! 0)]))"
    by (rule createDataDictionary_rows)
  show ?thesis
    by (simp add: Let_def c comp_def hd r0 n)
qed

theorem createDataDictionary_header_order_witness:
  "[sourceSheetName \<mapsto> scenarioData] sourceSheetName = Some scenarioData \<and>
   2 \<le> length scenarioData \<and>
   map (\<lambda>r. r ! 0)
     (the (snd (createDataDictionary sampleHost [sourceSheetName \<mapsto> scenarioData])
        dictSheetName))
     = Text ''Field Name'' # scenarioData ! 0 \<and>
   scenarioData ! 0 = [Text ''id'', Text ''signup_date'', Text ''active'']"
proof -
  have s: "[sourceSheetName \<mapsto> scenarioData] sourceSheetName = Some scenarioData"
    by simp
  have l: "2 \<le> length scenarioData"
    by (simp add: scenarioData_def)
  have h: "scenarioData ! 0 = [Text ''id'', Text ''signup_date'', Text ''active'']"
    by (simp add: scenarioData_def)
  from createDataDictionary_header_order
      [of "[sourceSheetName \<mapsto> scenarioData]" scenarioData sampleHost, OF s l] s l h
  show ?thesis
    by (simp add: Let_def dictHeaders_def)
qed

lemma scenario_types:
  "inferType h [Text ''1'', Text ''2'', Text ''3'']
     = Some (if isValidDate h ''1'' \<and> isValidDate h ''2'' \<and> isValidDate h ''3''
             then ''Date'' else ''Numeric'')"
  "inferType h [Text ''2024-01-05'', Text ''not-a-date'', Text ''2024-03-10'']
     = Some (if isValidDate h ''2024-01-05'' \<and> isValidDate h ''not-a-date'' \<and>
                isValidDate h ''2024-03-10''
             then ''Date'' else ''String'')"
  "inferType h [Text ''yes'', Text ''no'', Text ''maybe'']
     = Some (if isValidDate h ''yes'' \<and> isValidDate h ''no'' \<and> isValidDate h ''maybe''
             then ''Date'' else ''String'')"
  by (simp_all add: inferType_def decide_def scanValues_flags initFlags_def text_tests)

lemma scenario_run:
  "createDataDictionary h [sourceSheetName \<mapsto> scenarioData] =
     (Inr (),
      [sourceSheetName \<mapsto> scenarioData,
       dictSheetName \<mapsto>
         [dictHeaders,
          recordRow \<lparr>header = Text ''id'',
            dataType = inferType h [Text ''1'', Text ''2'', Text ''3''],
            description = '''', example = Text ''1'', missingCount = 0,
            uniqueValues = ''1, 2, 3''\<rparr>,
          recordRow \<lparr>header = Text ''signup_date'',
            dataType = inferType h [Text ''2024-01-05'', Text ''not-a-date'', Text ''2024-03-10''],
            description = '''', example = Text ''2024-01-05'', missingCount = 0,
            uniqueValues = ''2024-01-05, not-a-date, 2024-03-10''\<rparr>,
          recordRow \<lparr>header = Text ''active'',
            dataType = inferType h [Text ''yes'', Text ''no'', Text ''maybe''],
            description = '''', example = Text ''yes'', missingCount = 0,
            uniqueValues = ''yes, no, maybe''\<rparr>]])"
proof -
  have s: "[sourceSheetName \<mapsto> scenarioData] sourceSheetName = Some scenarioData"
    by simp
  have l: "2 \<le> length scenarioData"
    by (simp add: scenarioData_def)
  have r: "slice 1 (1 + SAMPLE_ROWS) scenarioData = tl scenarioData"
    by (simp add: slice_def SAMPLE_ROWS_def scenarioData_def)
  have hs: "scenarioData ! 0 = [Text ''id'', Text ''signup_date'', Text ''active'']"
    by (simp add: scenarioData_def)
  have c0: "columnValues (tl scenarioData) 0 = [Text ''1'', Text ''2'', Text ''3'']"
    by (simp add: columnValues_def cellAt_def scenarioData_def)
  have c1: "columnValues (tl scenarioData) (Suc 0)
      = [Text ''2024-01-05'', Text ''not-a-date'', Text ''2024-03-10'']"
    by (simp add: columnValues_def cellAt_def scenarioData_def)
  have c2: "columnValues (tl scenarioData) 2 = [Text ''yes'', Text ''no'', Text ''maybe'']"
    by (simp add: columnValues_def cellAt_def scenarioData_def)
  have u: "[0..<length [Text ''id'', Text ''signup_date'', Text ''active'']] = [0, 1, 2]"
    by (simp add: upt_rec)
  show ?thesis
    unfolding createDataDictionary_rows
        [of "[sourceSheetName \<mapsto> scenarioData]" scenarioData h, OF s l] r hs u
    by (simp add: analyzeColumn_def nonEmpty_def c0 c1 c2 uniqueList_def slice_def
        newSet_def setAdd_def Let_def)
qed

text \<open>
  C2. The scenario of the three columns \<open>id\<close>, \<open>signup_date\<close> and \<open>active\<close>, run through
  \<^verbatim>\<open>createDataDictionary\<close> on any host. A column is Date when the host's \<^verbatim>\<open>Date\<close>
  constructor reads each of its three texts as a date; when it does not, \<open>id\<close> is Numeric
  and \<open>signup_date\<close> and \<open>active\<close> are String. On V8 the texts \<open>1\<close>, \<open>2\<close> and \<open>3\<close> are
  dates, so \<open>id\<close> is Date there, and \<open>signup_date\<close> and \<open>active\<close> are String.
\<close>

theorem scenario_dictionary_by_host:
  "createDataDictionary h [sourceSheetName \<mapsto> scenarioData] =
     (Inr (),
      [sourceSheetName \<mapsto> scenarioData,
       dictSheetName \<mapsto>
         [dictHeaders,
          [Text ''id'',
           Text (if isValidDate h ''1'' \<and> isValidDate h ''2'' \<and> isValidDate h ''3''
                 then ''Date'' else ''Numeric''),
           Text '''', Text ''1'', Number 0, Text ''1, 2, 3''],
          [Text ''signup_date'',
           Text (if isValidDate h ''2024-01-05'' \<and> isValidDate h ''not-a-date'' \<and>
                    isValidDate h ''2024-03-10''
                 then ''Date'' else ''String''),
           Text '''', Text ''2024-01-05'', Number 0,
           Text ''2024-01-05, not-a-date, 2024-03-10''],
          [Text ''active'',
           Text (if isValidDate h ''yes'' \<and> isValidDate h ''no'' \<and> isValidDate h ''maybe''
                 then ''Date'' else ''String''),
           Text '''', Text ''yes'', Number 0, Text ''yes, no, maybe'']]])"
  by (simp only: scenario_run scenario_types recordRow_def) simp

theorem scenario_dictionary_by_host_witness:
  "createDataDictionary sampleHost [sourceSheetName \<mapsto> scenarioData] =
     (Inr (),
      [sourceSheetName \<mapsto> scenarioData,
       dictSheetName \<mapsto>
         [dictHeaders,
          [Text ''id'', Text ''Date'', Text '''', Text ''1'', Number 0,
           Text ''1, 2, 3''],
          [Text ''signup_date'', Text ''String'', Text '''', Text ''2024-01-05'', Number 0,
           Text ''2024-01-05, not-a-date, 2024-03-10''],
          [Text ''active'', Text ''String'', Text '''', Text ''yes'', Number 0,
           Text ''yes, no, maybe'']]])"
  using scenario_dictionary_by_host [of sampleHost]
  by (simp add: sampleHost_dates)

theorem scenario_id_is_Date:
  "the (snd (createDataDictionary sampleHost [sourceSheetName \<mapsto> scenarioData])
      dictSheetName) ! 1
     = [Text ''id'', Text ''Date'', Text '''', Text ''1'', Number 0, Text ''1, 2, 3''] \<and>
   the (snd (createDataDictionary sampleHost [sourceSheetName \<mapsto> scenarioData])
      dictSheetName) ! 1 ! 1
     \<noteq> Text ''Numeric''"
proof -
  have t: "inferType sampleHost [Text ''1'', Text ''2'', Text ''3''] = Some ''Date''"
    by (simp add: scenario_types(1) sampleHost_dates)
  show ?thesis
    by (simp add: scenario_run t recordRow_def)
qed

end
